theory Spec2Isabelle
  imports Complex_Main
begin

section \<open>The WebSocket service of the frontend (services/websocket.js)\<close>

text \<open>
  A JavaScript exception is a value that a computation may complete with. Every operation
  of the model returns the state it leaves behind together with \<open>None\<close> (normal
  completion) or \<open>Some e\<close> (the exception \<open>e\<close> was thrown and not caught). State
  changes made before a throw stay, as in JavaScript.
\<close>

type_synonym exn = string

type_synonym 's completion = "'s \<times> exn option"

datatype ready_state = CONNECTING | OPEN | CLOSING | CLOSED

text \<open>The browser's WebSocket object, as far as the service reads and drives it.\<close>

record websocket =
  url :: string
  readyState :: ready_state
  sent :: "string list"

text \<open>
  The fields of the class. A JavaScript \<open>Set\<close> keeps its elements in insertion order and
  without duplicates; it is a list here, and \<open>set_add\<close> and \<open>set_delete\<close> are its
  \<open>add\<close> and \<open>delete\<close>. Handlers are functions compared by reference: \<open>'h\<close> is the
  type of these references, and what a handler does when called is looked up separately.
\<close>

record 'h WebSocketService =
  ws :: "websocket option"
  messageHandlers :: "'h list"
  connectHandlers :: "'h list"
  disconnectHandlers :: "'h list"
  reconnectAttempts :: nat
  maxReconnectAttempts :: nat
  reconnectInterval :: nat

datatype console_line = ConsoleLog string | ConsoleError string "exn option"

text \<open>
  What the code touches: the service object \<open>this\<close>, the console, the timers started with
  \<open>setTimeout\<close> (the delay of each, in milliseconds, oldest first; each one calls
  \<open>connect\<close> when it fires), the handler calls made so far (with the argument of the call,
  \<open>None\<close> for a call without argument), and the application state \<open>world\<close> that the
  handlers act on.
\<close>

record ('h, 'd, 'w) state =
  this :: "'h WebSocketService"
  console :: "console_line list"
  timers :: "nat list"
  calls :: "('h \<times> 'd option) list"
  world :: 'w

definition set_add :: "'a \<Rightarrow> 'a list \<Rightarrow> 'a list" where
  "set_add x xs = (if x \<in> set xs then xs else xs @ [x])"

definition set_delete :: "'a \<Rightarrow> 'a list \<Rightarrow> 'a list" where
  "set_delete x xs = removeAll x xs"

text \<open>The constructor.\<close>

definition new_WebSocketService :: "'h WebSocketService" where
  "new_WebSocketService =
     \<lparr>ws = None, messageHandlers = [], connectHandlers = [], disconnectHandlers = [],
      reconnectAttempts = 0, maxReconnectAttempts = 5, reconnectInterval = 1000\<rparr>"

text \<open>The page right after the service has been constructed.\<close>

definition initial_state :: "'w \<Rightarrow> ('h, 'd, 'w) state" where
  "initial_state w =
     \<lparr>this = new_WebSocketService, console = [], timers = [], calls = [], world = w\<rparr>"

subsection \<open>Control flow: sequencing, \<open>try\<close>/\<open>catch\<close>, \<open>forEach\<close>\<close>

definition seq :: "('s \<Rightarrow> 's completion) \<Rightarrow> ('s \<Rightarrow> 's completion) \<Rightarrow> 's \<Rightarrow> 's completion" where
  "seq a b s = (case a s of (s', None) \<Rightarrow> b s' | (s', Some e) \<Rightarrow> (s', Some e))"

definition try_catch ::
  "('s \<Rightarrow> 's completion) \<Rightarrow> (exn \<Rightarrow> 's \<Rightarrow> 's completion) \<Rightarrow> 's \<Rightarrow> 's completion" where
  "try_catch body handler s =
     (case body s of (s', None) \<Rightarrow> (s', None) | (s', Some e) \<Rightarrow> handler e s')"

text \<open>\<open>Set.prototype.forEach\<close>: an exception of the callback ends the iteration.\<close>

fun forEach :: "('a \<Rightarrow> 's \<Rightarrow> 's completion) \<Rightarrow> 'a list \<Rightarrow> 's \<Rightarrow> 's completion" where
  "forEach f [] s = (s, None)"
| "forEach f (x # xs) s =
     (case f x s of (s', None) \<Rightarrow> forEach f xs s' | (s', Some e) \<Rightarrow> (s', Some e))"

definition console_log :: "string \<Rightarrow> ('h, 'd, 'w) state \<Rightarrow> ('h, 'd, 'w) state completion" where
  "console_log msg s = (s\<lparr>console := console s @ [ConsoleLog msg]\<rparr>, None)"

definition console_error ::
  "string \<Rightarrow> exn option \<Rightarrow> ('h, 'd, 'w) state \<Rightarrow> ('h, 'd, 'w) state completion" where
  "console_error msg err s = (s\<lparr>console := console s @ [ConsoleError msg err]\<rparr>, None)"

text \<open>
  Calling a handler: \<open>body h arg w\<close> is what the function behind the reference \<open>h\<close> does
  on the application state \<open>w\<close> when called with \<open>arg\<close>, and whether it throws.
\<close>

definition call_handler ::
  "('h \<Rightarrow> 'd option \<Rightarrow> 'w \<Rightarrow> 'w \<times> exn option) \<Rightarrow> 'h \<Rightarrow> 'd option \<Rightarrow>
   ('h, 'd, 'w) state \<Rightarrow> ('h, 'd, 'w) state completion" where
  "call_handler body h arg s =
     (case body h arg (world s) of
        (w', r) \<Rightarrow> (s\<lparr>calls := calls s @ [(h, arg)], world := w'\<rparr>, r))"

subsection \<open>Decimal rendering of a number in a template string\<close>

fun digit_char :: "nat \<Rightarrow> char" where
  "digit_char n = char_of (48 + n)"

fun string_of_nat :: "nat \<Rightarrow> string" where
  "string_of_nat n =
     (if n < 10 then [digit_char n] else string_of_nat (n div 10) @ [digit_char (n mod 10)])"

declare string_of_nat.simps [simp del]

subsection \<open>The methods\<close>

text \<open>
  Registration adds the handler to its set and returns the cleanup function, an arrow
  function that deletes the handler from the set as it is when the function is called.
\<close>

definition addMessageHandler ::
  "'h \<Rightarrow> 'h WebSocketService \<Rightarrow>
   'h WebSocketService \<times> ('h WebSocketService \<Rightarrow> 'h WebSocketService)" where
  "addMessageHandler handler svc =
     (svc\<lparr>messageHandlers := set_add handler (messageHandlers svc)\<rparr>,
      \<lambda>svc'. svc'\<lparr>messageHandlers := set_delete handler (messageHandlers svc')\<rparr>)"

definition addConnectHandler ::
  "'h \<Rightarrow> 'h WebSocketService \<Rightarrow>
   'h WebSocketService \<times> ('h WebSocketService \<Rightarrow> 'h WebSocketService)" where
  "addConnectHandler handler svc =
     (svc\<lparr>connectHandlers := set_add handler (connectHandlers svc)\<rparr>,
      \<lambda>svc'. svc'\<lparr>connectHandlers := set_delete handler (connectHandlers svc')\<rparr>)"

definition addDisconnectHandler ::
  "'h \<Rightarrow> 'h WebSocketService \<Rightarrow>
   'h WebSocketService \<times> ('h WebSocketService \<Rightarrow> 'h WebSocketService)" where
  "addDisconnectHandler handler svc =
     (svc\<lparr>disconnectHandlers := set_add handler (disconnectHandlers svc)\<rparr>,
      \<lambda>svc'. svc'\<lparr>disconnectHandlers := set_delete handler (disconnectHandlers svc')\<rparr>)"

text \<open>
  \<open>reconnect\<close>: below the maximum it counts the attempt, logs it and starts a timer of
  \<open>reconnectInterval * reconnectAttempts\<close> milliseconds (the product is taken when
  \<open>setTimeout\<close> is called, after the increment); otherwise it only logs.
\<close>

definition reconnect :: "('h, 'd, 'w) state \<Rightarrow> ('h, 'd, 'w) state completion" where
  "reconnect s =
     (if reconnectAttempts (this s) < maxReconnectAttempts (this s) then
        let s1 = s\<lparr>this := (this s)\<lparr>reconnectAttempts := reconnectAttempts (this s) + 1\<rparr>\<rparr>
        in seq (console_log (''Attempting to reconnect... ('' @
                   string_of_nat (reconnectAttempts (this s1)) @ ''/'' @
                   string_of_nat (maxReconnectAttempts (this s1)) @ '')''))
               (\<lambda>s2. (s2\<lparr>timers := timers s2 @
                          [reconnectInterval (this s2) * reconnectAttempts (this s2)]\<rparr>, None))
               s1
      else console_error ''Max reconnection attempts reached'' None s)"

text \<open>The three callbacks that \<open>connect\<close> installs on the socket.\<close>

definition ws_onopen ::
  "('h \<Rightarrow> 'd option \<Rightarrow> 'w \<Rightarrow> 'w \<times> exn option) \<Rightarrow>
   ('h, 'd, 'w) state \<Rightarrow> ('h, 'd, 'w) state completion" where
  "ws_onopen body =
     seq (console_log ''WebSocket connected'')
    (seq (\<lambda>s. (s\<lparr>this := (this s)\<lparr>reconnectAttempts := 0\<rparr>\<rparr>, None))
         (\<lambda>s. forEach (\<lambda>handler.
                  try_catch (call_handler body handler None)
                            (\<lambda>error. console_error ''Error in connect handler:'' (Some error)))
                (connectHandlers (this s)) s))"

definition ws_onmessage ::
  "(string \<Rightarrow> 'd option) \<Rightarrow> ('h \<Rightarrow> 'd option \<Rightarrow> 'w \<Rightarrow> 'w \<times> exn option) \<Rightarrow> string \<Rightarrow>
   ('h, 'd, 'w) state \<Rightarrow> ('h, 'd, 'w) state completion" where
  "ws_onmessage JSON_parse body event_data =
     try_catch
       (\<lambda>s. case JSON_parse event_data of
               None \<Rightarrow> (s, Some ''SyntaxError'')
             | Some data \<Rightarrow>
                 forEach (\<lambda>handler.
                    try_catch (call_handler body handler (Some data))
                              (\<lambda>error. console_error ''Error in message handler:'' (Some error)))
                  (messageHandlers (this s)) s)
       (\<lambda>error. console_error ''Error parsing WebSocket message:'' (Some error))"

definition ws_onclose ::
  "('h \<Rightarrow> 'd option \<Rightarrow> 'w \<Rightarrow> 'w \<times> exn option) \<Rightarrow>
   ('h, 'd, 'w) state \<Rightarrow> ('h, 'd, 'w) state completion" where
  "ws_onclose body =
     seq (console_log ''WebSocket disconnected'')
    (seq (\<lambda>s. forEach (\<lambda>handler.
                  try_catch (call_handler body handler None)
                            (\<lambda>error. console_error ''Error in disconnect handler:'' (Some error)))
                (disconnectHandlers (this s)) s)
         reconnect)"

text \<open>\<open>n\<close> disconnects in a row, with no successful connection in between.\<close>

fun closes ::
  "('h \<Rightarrow> 'd option \<Rightarrow> 'w \<Rightarrow> 'w \<times> exn option) \<Rightarrow> nat \<Rightarrow>
   ('h, 'd, 'w) state \<Rightarrow> ('h, 'd, 'w) state completion" where
  "closes body 0 s = (s, None)"
| "closes body (Suc n) s = seq (ws_onclose body) (closes body n) s"


text \<open>
  For comparison with the code, the wording "delays grow exponentially": each delay is the
  one before it multiplied by one fixed factor greater than one, so of any three
  consecutive delays the middle one squared is the product of its neighbours.
\<close>

fun grows_exponentially :: "nat list \<Rightarrow> bool" where
  "grows_exponentially (a # b # c # ds) =
     (a < b \<and> b * b = a * c \<and> grows_exponentially (b # c # ds))"
| "grows_exponentially [a, b] = (a < b)"
| "grows_exponentially _ = True"

text \<open>
  \<open>connect\<close>: the page's protocol and host name and the outcome of \<open>new WebSocket(url)\<close>
  (which may throw) are parameters. The callbacks above are the ones it installs.
\<close>

definition connect ::
  "string \<Rightarrow> string \<Rightarrow> (string \<Rightarrow> exn + websocket) \<Rightarrow>
   ('h, 'd, 'w) state \<Rightarrow> ('h, 'd, 'w) state completion" where
  "connect location_protocol location_hostname new_WebSocket =
     try_catch
       (\<lambda>s. let protocol = (if location_protocol = ''https:'' then ''wss:'' else ''ws:'');
                wsUrl = protocol @ ''//'' @ location_hostname @ '':8081/ws''
            in case new_WebSocket wsUrl of
                 Inl e \<Rightarrow> (s, Some e)
               | Inr sock \<Rightarrow> (s\<lparr>this := (this s)\<lparr>ws := Some sock\<rparr>\<rparr>, None))
       (\<lambda>error. console_error ''Error connecting to WebSocket:'' (Some error))"

text \<open>
  \<open>sendMessage\<close>: \<open>JSON.stringify\<close> is a parameter; it throws on a value that has no
  JSON text (a cyclic object). \<open>send\<close> appends to the frames of the socket.
\<close>

definition sendMessage ::
  "('m \<Rightarrow> exn + string) \<Rightarrow> 'm \<Rightarrow> ('h, 'd, 'w) state \<Rightarrow> ('h, 'd, 'w) state completion" where
  "sendMessage JSON_stringify message s =
     (case ws (this s) of
        None \<Rightarrow> console_error ''WebSocket is not connected'' None s
      | Some sock \<Rightarrow>
          if readyState sock = OPEN then
            (case JSON_stringify message of
               Inl e \<Rightarrow> (s, Some e)
             | Inr text \<Rightarrow>
                 (s\<lparr>this := (this s)\<lparr>ws := Some (sock\<lparr>sent := sent sock @ [text]\<rparr>)\<rparr>\<rparr>, None))
          else console_error ''WebSocket is not connected'' None s)"

subsection \<open>The singleton\<close>

text \<open>
  Objects live in a heap and are named by their address. The static field
  \<open>WebSocketService.instance\<close> is undefined (\<open>None\<close>) until the first call of
  \<open>getInstance\<close>; an object reference is never falsy.
\<close>

record 'h statics =
  WebSocketService_instance :: "nat option"
  heap :: "'h WebSocketService list"

definition getInstance :: "'h statics \<Rightarrow> nat \<times> 'h statics" where
  "getInstance g =
     (case WebSocketService_instance g of
        None \<Rightarrow>
          (let r = length (heap g)
           in (r, g\<lparr>WebSocketService_instance := Some r,
                    heap := heap g @ [new_WebSocketService]\<rparr>))
      | Some r \<Rightarrow> (r, g))"

section \<open>The job list of the page (App.js, services/api.js)\<close>

datatype jsval = JUndefined | JNull | JBool bool | JNum int | JStr string

text \<open>A job as the components read it; further fields are the extension of the record.\<close>

record job =
  job_id :: int
  name :: string
  monitoring_focus :: string
  query :: string
  urls :: "string list"
  schedule_cron :: string
  is_active :: bool
  last_run :: jsval
  next_run :: jsval
  created_at :: jsval

text \<open>
  What \<open>fetch\<close> gives: a rejected promise, or a response with its \<open>ok\<close> flag, its status
  and what \<open>response.json()\<close> resolves to (it rejects when the body is not JSON).
\<close>

record 'a response =
  ok :: bool
  status :: nat
  json :: "exn + 'a"

datatype 'a fetched = Rejected exn | Resolved "'a response"

text \<open>\<open>ApiService.request\<close>: every failure is logged and thrown again.\<close>

definition request :: "'a fetched \<Rightarrow> console_line list \<Rightarrow> (exn + 'a) \<times> console_line list" where
  "request outcome con =
     (case (case outcome of
              Rejected e \<Rightarrow> Inl e
            | Resolved response \<Rightarrow>
                if \<not> ok response
                then Inl (''HTTP error! status: '' @ string_of_nat (status response))
                else json response) of
        Inl error \<Rightarrow> (Inl error, con @ [ConsoleError ''API request failed:'' (Some error)])
      | Inr v \<Rightarrow> (Inr v, con))"

text \<open>
  The state of the \<open>App\<close> component that the two callbacks touch, and the console.
  \<open>setJobs\<close> is called with a function of the previous list, so the update acts on the
  list that is current when the request has completed: \<open>jobs\<close> below.
\<close>

record 'a app =
  jobs :: "'a job_scheme list"
  app_console :: "console_line list"

definition toggleJob :: "'b job_scheme fetched \<Rightarrow> int \<Rightarrow> 'a app \<Rightarrow> 'a app" where
  "toggleJob outcome jobId st =
     (case request outcome (app_console st) of
        (Inr updatedJob, con) \<Rightarrow>
          st\<lparr>jobs := map (\<lambda>job. if job_id job = jobId
                                 then job\<lparr>is_active := is_active updatedJob\<rparr> else job) (jobs st),
             app_console := con\<rparr>
      | (Inl error, con) \<Rightarrow>
          st\<lparr>app_console := con @ [ConsoleError ''Error toggling job:'' (Some error)]\<rparr>)"

definition deleteJob :: "'b fetched \<Rightarrow> int \<Rightarrow> 'a app \<Rightarrow> 'a app" where
  "deleteJob outcome jobId st =
     (case request outcome (app_console st) of
        (Inr _, con) \<Rightarrow>
          st\<lparr>jobs := filter (\<lambda>job. job_id job \<noteq> jobId) (jobs st), app_console := con\<rparr>
      | (Inl error, con) \<Rightarrow>
          st\<lparr>app_console := con @ [ConsoleError ''Error deleting job:'' (Some error)]\<rparr>)"

section \<open>Dates in the job list (components/ScheduledJobs.js)\<close>

fun truthy :: "jsval \<Rightarrow> bool" where
  "truthy JUndefined = False"
| "truthy JNull = False"
| "truthy (JBool b) = b"
| "truthy (JNum n) = (n \<noteq> 0)"
| "truthy (JStr s) = (s \<noteq> [])"

text \<open>
  \<open>toLocaleString\<close> stands for
  \<open>new Date(dateString).toLocaleString([], {month: 'short', day: 'numeric', hour: '2-digit',
  minute: '2-digit'})\<close>, which depends on the locale of the browser.
\<close>

definition formatDate :: "(jsval \<Rightarrow> string) \<Rightarrow> jsval \<Rightarrow> string" where
  "formatDate toLocaleString dateString =
     (if \<not> truthy dateString then ''Never'' else toLocaleString dateString)"


section \<open>The monitoring core: baseline store and significance classifier\<close>

text \<open>
  The code of the monitoring core (the monitoring service of the backend) is not among the
  source files; this section follows the spec.
\<close>

text \<open>
  Modelled from the spec: the verdict of a fetch cycle (the classifier and the scheduler
  that produce it are not among the source files).
\<close>

datatype verdict = Unchanged | Trivial | Significant | Error | Unknown

text \<open>
  Modelled from the spec: a snapshot (the Baseline Store is not among the source files),
  with its capture time, the cleaned content and the fingerprint of the normalized content.
\<close>

record snapshot =
  capturedAt :: nat
  content :: string
  fingerprint :: nat

text \<open>
  Modelled from the spec: the two thresholds of the classifier (its configuration is not
  among the source files).
\<close>

record thresholds =
  trivialThreshold :: rat
  significantThreshold :: rat

text \<open>
  Modelled from the spec: the three stages of the classifier (which is not among the
  source files).
\<close>

datatype stage = FingerprintCheck | StructuralDistance | AmbiguousBand

text \<open>
  Modelled from the spec: the Significance Classifier, which is not among the source files.
  Stage 1: equal fingerprints give \<open>Unchanged\<close>, no further work. Stage 2: a distance
  between the two contents; below the low threshold the verdict is \<open>Trivial\<close>, above the
  high threshold it is \<open>Significant\<close>. Stage 3: in between, the optional deeper analysis
  decides, and without it the verdict is \<open>Significant\<close>. The result is the verdict with
  the stages that were performed.
\<close>

definition classify ::
  "(string \<Rightarrow> string \<Rightarrow> rat) \<Rightarrow> (string \<Rightarrow> string \<Rightarrow> verdict) option \<Rightarrow> thresholds \<Rightarrow>
   snapshot \<Rightarrow> snapshot \<Rightarrow> verdict \<times> stage list" where
  "classify distance deeper th old new =
     (if fingerprint old = fingerprint new then (Unchanged, [FingerprintCheck])
      else
        let d = distance (content old) (content new)
        in if d < trivialThreshold th then (Trivial, [FingerprintCheck, StructuralDistance])
           else if significantThreshold th < d
           then (Significant, [FingerprintCheck, StructuralDistance])
           else ((case deeper of
                    None \<Rightarrow> Significant
                  | Some analyse \<Rightarrow> analyse (content old) (content new)),
                 [FingerprintCheck, StructuralDistance, AmbiguousBand]))"

text \<open>
  Modelled from the spec: the state of the Baseline Store, which is not among the source
  files: the accepted snapshot of each source, a bounded history of the earlier ones, and
  the retention count.
\<close>

record 'id baseline_store =
  baselines :: "'id \<rightharpoonup> snapshot"
  history :: "'id \<Rightarrow> snapshot list"
  retention :: nat

text \<open>
  Modelled from the spec: \<open>getBaseline\<close> of the Baseline Store (not among the source
  files) returns the accepted snapshot, or none for a source never successfully ingested.
\<close>

definition getBaseline :: "'id baseline_store \<Rightarrow> 'id \<Rightarrow> snapshot option" where
  "getBaseline st sourceId = baselines st sourceId"

text \<open>
  Modelled from the spec: \<open>commit\<close> of the Baseline Store (not among the source files)
  replaces the baseline and appends the prior one to the history, evicting the oldest
  entries beyond the retention count.
\<close>

definition commit :: "'id baseline_store \<Rightarrow> 'id \<Rightarrow> snapshot \<Rightarrow> 'id baseline_store" where
  "commit st sourceId newSnapshot =
     (let prior = (case baselines st sourceId of None \<Rightarrow> [] | Some b \<Rightarrow> [b]);
          h = history st sourceId @ prior
      in st\<lparr>baselines := (baselines st)(sourceId \<mapsto> newSnapshot),
            history := (history st)(sourceId := drop (length h - retention st) h)\<rparr>)"

text \<open>
  Modelled from the spec: what the Fetcher returns (it is not among the source files), a
  fetch error or the cleaned content with its fetch time.
\<close>

datatype fetch_outcome = FetchError string | Fetched string nat

text \<open>
  Modelled from the spec: one fetch cycle of a source, which is not among the source files.
  A fetch error gives verdict \<open>Error\<close> and leaves the baseline alone. On a first run (no
  baseline) the fetched content becomes the baseline with verdict \<open>Unchanged\<close>. Otherwise
  the classifier compares the baseline with the new snapshot; only \<open>Significant\<close> commits
  the new snapshot and dispatches one alert. The result is the store, the verdict and the
  alerts dispatched in the cycle.
\<close>

definition run_cycle ::
  "(string \<Rightarrow> nat) \<Rightarrow> (string \<Rightarrow> string \<Rightarrow> rat) \<Rightarrow> (string \<Rightarrow> string \<Rightarrow> verdict) option \<Rightarrow>
   thresholds \<Rightarrow> 'id baseline_store \<Rightarrow> 'id \<Rightarrow> fetch_outcome \<Rightarrow>
   'id baseline_store \<times> verdict \<times> ('id \<times> verdict) list" where
  "run_cycle fingerprint_of distance deeper th st sourceId outcome =
     (case outcome of
        FetchError e \<Rightarrow> (st, Error, [])
      | Fetched text fetchedAt \<Rightarrow>
          (let new = \<lparr>capturedAt = fetchedAt, content = text, fingerprint = fingerprint_of text\<rparr>
           in (case getBaseline st sourceId of
                 None \<Rightarrow> (commit st sourceId new, Unchanged, [])
               | Some old \<Rightarrow>
                   (let v = fst (classify distance deeper th old new)
                    in if v = Significant
                       then (commit st sourceId new, v, [(sourceId, v)])
                       else (st, v, [])))))"

section \<open>Properties of the WebSocket service\<close>

subsection \<open>Handlers called under \<open>try\<close>/\<open>catch\<close>\<close>

lemma guarded_call:
  "try_catch (call_handler body h arg) (\<lambda>error. console_error label (Some error)) s = (s', r) \<Longrightarrow>
   r = None \<and> this s' = this s \<and> timers s' = timers s \<and> calls s' = calls s @ [(h, arg)]"
  by (auto simp: try_catch_def call_handler_def console_error_def
           split: prod.splits option.splits)

lemma forEach_guarded:
  "forEach (\<lambda>h. try_catch (call_handler body h arg)
                  (\<lambda>error. console_error label (Some error))) hs s = (s', r) \<Longrightarrow>
   r = None \<and> this s' = this s \<and> timers s' = timers s \<and>
   calls s' = calls s @ map (\<lambda>h. (h, arg)) hs"
proof (induction hs arbitrary: s)
  case Nil
  then show ?case by simp
next
  case (Cons h hs)
  obtain s1 r1 where c:
    "try_catch (call_handler body h arg) (\<lambda>error. console_error label (Some error)) s = (s1, r1)"
    by fastforce
  from guarded_call [OF c]
  have g: "r1 = None" "this s1 = this s" "timers s1 = timers s"
    "calls s1 = calls s @ [(h, arg)]"
    by simp_all
  from Cons.prems c g(1)
  have "forEach (\<lambda>h. try_catch (call_handler body h arg)
                  (\<lambda>error. console_error label (Some error))) hs s1 = (s', r)"
    by simp
  from Cons.IH [OF this] g show ?case by simp
qed

text \<open>
  Without the inner \<open>try\<close> the first throwing handler would end the iteration: of the
  handlers 1 and 2, where 1 throws, only 1 is called.
\<close>

lemma forEach_unguarded_stops:
  "forEach (\<lambda>h. call_handler (\<lambda>h a w. (w, if h = (1::nat) then Some ''boom'' else None))
                  h (None :: unit option)) [1, 2] (initial_state ()) =
   (initial_state () \<lparr>calls := [(1, None)]\<rparr>, Some ''boom'')"
  by (simp add: call_handler_def initial_state_def)

lemma ws_onmessage_effect:
  assumes "ws_onmessage JSON_parse body event_data s = (s', r)"
  shows "r = None \<and> this s' = this s \<and> timers s' = timers s \<and>
         calls s' = calls s @ (case JSON_parse event_data of None \<Rightarrow> []
                               | Some data \<Rightarrow> map (\<lambda>h. (h, Some data)) (messageHandlers (this s)))"
proof (cases "JSON_parse event_data")
  case None
  with assms show ?thesis
    by (auto simp: ws_onmessage_def try_catch_def console_error_def)
next
  case (Some data)
  obtain s2 r2 where f:
    "forEach (\<lambda>handler. try_catch (call_handler body handler (Some data))
                (\<lambda>error. console_error ''Error in message handler:'' (Some error)))
       (messageHandlers (this s)) s = (s2, r2)"
    by fastforce
  note e = forEach_guarded [OF f]
  from e have "r2 = None" by simp
  with assms Some f have "s' = s2" "r = None"
    by (simp_all add: ws_onmessage_def try_catch_def)
  with e Some show ?thesis by simp
qed

lemma ws_onopen_effect:
  assumes "ws_onopen body s = (s', r)"
  shows "r = None \<and> this s' = (this s)\<lparr>reconnectAttempts := 0\<rparr> \<and> timers s' = timers s \<and>
         calls s' = calls s @ map (\<lambda>h. (h, None)) (connectHandlers (this s))"
proof -
  let ?s1 = "s\<lparr>console := console s @ [ConsoleLog ''WebSocket connected''],
               this := (this s)\<lparr>reconnectAttempts := 0\<rparr>\<rparr>"
  obtain s2 r2 where f:
    "forEach (\<lambda>handler. try_catch (call_handler body handler None)
                (\<lambda>error. console_error ''Error in connect handler:'' (Some error)))
       (connectHandlers (this ?s1)) ?s1 = (s2, r2)"
    by fastforce
  note e = forEach_guarded [OF f]
  from assms f have "s' = s2" "r = r2"
    by (simp_all add: ws_onopen_def seq_def console_log_def)
  with e show ?thesis by simp
qed

subsection \<open>Reconnection\<close>

lemma reconnect_below:
  "reconnectAttempts (this s) < maxReconnectAttempts (this s) \<Longrightarrow>
   reconnect s = (s', r) \<Longrightarrow>
   r = None \<and> this s' = (this s)\<lparr>reconnectAttempts := Suc (reconnectAttempts (this s))\<rparr> \<and>
   timers s' = timers s @ [reconnectInterval (this s) * Suc (reconnectAttempts (this s))] \<and>
   calls s' = calls s \<and> world s' = world s"
  by (auto simp: reconnect_def seq_def console_log_def Let_def)

lemma reconnect_at_max:
  "\<not> reconnectAttempts (this s) < maxReconnectAttempts (this s) \<Longrightarrow>
   reconnect s = (s', r) \<Longrightarrow>
   r = None \<and> this s' = this s \<and> timers s' = timers s \<and> calls s' = calls s \<and>
   world s' = world s"
  by (auto simp: reconnect_def console_error_def)

lemma ws_onclose_effect:
  assumes "ws_onclose body s = (s', r)"
  shows "r = None \<and>
         this s' = (if reconnectAttempts (this s) < maxReconnectAttempts (this s)
                    then (this s)\<lparr>reconnectAttempts := Suc (reconnectAttempts (this s))\<rparr>
                    else this s) \<and>
         timers s' = (if reconnectAttempts (this s) < maxReconnectAttempts (this s)
                      then timers s @ [reconnectInterval (this s) * Suc (reconnectAttempts (this s))]
                      else timers s) \<and>
         calls s' = calls s @ map (\<lambda>h. (h, None)) (disconnectHandlers (this s))"
proof -
  obtain s1 where s1: "console_log ''WebSocket disconnected'' s = (s1, None)"
    and s1_eq: "this s1 = this s" "timers s1 = timers s" "calls s1 = calls s"
    by (simp add: console_log_def)
  obtain s2 r2 where f: "forEach (\<lambda>handler.
                  try_catch (call_handler body handler None)
                            (\<lambda>error. console_error ''Error in disconnect handler:'' (Some error)))
                (disconnectHandlers (this s1)) s1 = (s2, r2)"
    by fastforce
  from forEach_guarded [OF f] s1_eq
  have s2: "r2 = None" "this s2 = this s" "timers s2 = timers s"
    "calls s2 = calls s @ map (\<lambda>h. (h, None)) (disconnectHandlers (this s))"
    by simp_all
  from assms s1 f s2(1) have rc: "reconnect s2 = (s', r)"
    by (simp add: ws_onclose_def seq_def)
  show ?thesis
  proof (cases "reconnectAttempts (this s) < maxReconnectAttempts (this s)")
    case True
    with s2 have "reconnectAttempts (this s2) < maxReconnectAttempts (this s2)" by simp
    from reconnect_below [OF this rc] s2 True show ?thesis by simp
  next
    case False
    with s2 have "\<not> reconnectAttempts (this s2) < maxReconnectAttempts (this s2)" by simp
    from reconnect_at_max [OF this rc] s2 False show ?thesis by simp
  qed
qed

lemma upt_attempts:
  "a < m \<Longrightarrow> [Suc a ..< Suc (min (Suc (a + n)) m)] = Suc a # [Suc (Suc a) ..< Suc (min (Suc (a + n)) m)]"
  by (simp add: upt_conv_Cons del: upt_Suc)

lemma closes_effect:
  "reconnectAttempts (this s) \<le> maxReconnectAttempts (this s) \<Longrightarrow>
   closes body n s = (s', r) \<Longrightarrow>
   r = None \<and>
   this s' = (this s)\<lparr>reconnectAttempts :=
                 min (reconnectAttempts (this s) + n) (maxReconnectAttempts (this s))\<rparr> \<and>
   timers s' = timers s @ map (\<lambda>k. reconnectInterval (this s) * k)
                 [Suc (reconnectAttempts (this s)) ..<
                  Suc (min (reconnectAttempts (this s) + n) (maxReconnectAttempts (this s)))]"
proof (induction n arbitrary: s)
  case 0
  then show ?case by (simp add: min_def)
next
  case (Suc n)
  obtain s1 r1 where c: "ws_onclose body s = (s1, r1)" by fastforce
  note e = ws_onclose_effect [OF c]
  from e have r1: "r1 = None" by simp
  with Suc.prems(2) c have rest: "closes body n s1 = (s', r)" by (simp add: seq_def)
  show ?case
  proof (cases "reconnectAttempts (this s) < maxReconnectAttempts (this s)")
    case True
    with e have t: "this s1 = (this s)\<lparr>reconnectAttempts := Suc (reconnectAttempts (this s))\<rparr>"
      and tm: "timers s1 = timers s @ [reconnectInterval (this s) * Suc (reconnectAttempts (this s))]"
      by simp_all
    from t True have le: "reconnectAttempts (this s1) \<le> maxReconnectAttempts (this s1)" by simp
    from Suc.IH [OF le rest] t tm show ?thesis
      by (simp add: upt_attempts [OF True] del: upt_Suc)
  next
    case False
    with Suc.prems(1) have eq: "reconnectAttempts (this s) = maxReconnectAttempts (this s)" by simp
    from False e have t: "this s1 = this s" and tm: "timers s1 = timers s" by simp_all
    from t Suc.prems(1) have le: "reconnectAttempts (this s1) \<le> maxReconnectAttempts (this s1)" by simp
    from Suc.IH [OF le rest] t tm eq show ?thesis by (simp add: min_def)
  qed
qed


text \<open>
  C1, as the code has it. From a state whose attempt count has not passed the maximum,
  \<open>n\<close> disconnects in a row (no successful connection in between) complete without an
  exception and start one timer per attempt while the count is below the maximum: attempt
  number \<open>k\<close> is delayed by \<open>reconnectInterval * k\<close> milliseconds, which grows linearly
  in \<open>k\<close>. The count stops at \<open>maxReconnectAttempts\<close>, and from then on a disconnect
  starts no timer.
\<close>

theorem reconnect_backoff_linear_capped:
  assumes "reconnectAttempts (this s) \<le> maxReconnectAttempts (this s)"
  shows "snd (closes body n s) = None \<and>
         reconnectAttempts (this (fst (closes body n s))) =
           min (reconnectAttempts (this s) + n) (maxReconnectAttempts (this s)) \<and>
         timers (fst (closes body n s)) =
           timers s @ map (\<lambda>k. reconnectInterval (this s) * k)
             [Suc (reconnectAttempts (this s)) ..<
              Suc (min (reconnectAttempts (this s) + n) (maxReconnectAttempts (this s)))]"
  using closes_effect [OF assms, of body n "fst (closes body n s)" "snd (closes body n s)"]
  by simp

text \<open>
  Seven disconnects in a row after construction: five timers, of 1000 to 5000
  milliseconds, and none for the sixth and seventh.
\<close>

theorem reconnect_backoff_linear_capped_witness:
  "reconnectAttempts (this (initial_state () :: (nat, unit, unit) state))
     \<le> maxReconnectAttempts (this (initial_state () :: (nat, unit, unit) state)) \<and>
   timers (fst (closes (\<lambda>h a w. (w, None)) 7 (initial_state () :: (nat, unit, unit) state)))
     = [1000, 2000, 3000, 4000, 5000]"
  using reconnect_backoff_linear_capped
          [of "initial_state () :: (nat, unit, unit) state" "\<lambda>h a w. (w, None)" 7]
  by (simp add: initial_state_def new_WebSocketService_def upt_conv_Cons del: upt_Suc)

text \<open>
  C1 as stated fails: the delays of the first three attempts after construction are 1000,
  2000 and 3000 milliseconds, which is not exponential growth.
\<close>

theorem reconnect_backoff_exponential_counterexample:
  "timers (fst (closes (\<lambda>h a w. (w, None)) 3 (initial_state () :: (nat, unit, unit) state)))
     = [1000, 2000, 3000] \<and>
   \<not> grows_exponentially
       (timers (fst (closes (\<lambda>h a w. (w, None)) 3
                  (initial_state () :: (nat, unit, unit) state))))"
proof -
  have t: "timers (fst (closes (\<lambda>h a w. (w, None)) 3
                    (initial_state () :: (nat, unit, unit) state))) = [1000, 2000, 3000]"
    by (simp add: numeral_3_eq_3 initial_state_def new_WebSocketService_def ws_onclose_def
          seq_def console_log_def console_error_def reconnect_def Let_def)
  have "\<not> grows_exponentially [1000, 2000, 3000]"
    by simp
  with t show ?thesis by simp
qed

text \<open>
  C2. Whatever the registered handlers do to the application state, throwing included,
  and whatever the incoming text: \<open>onmessage\<close> completes without an exception, leaves the service as it was, and
  has called every registered message handler once, in order, with the parsed message (no
  handler when the text does not parse). The same holds for the connect handlers in
  \<open>onopen\<close> and the disconnect handlers in \<open>onclose\<close>.
\<close>

theorem handler_errors_contained:
  "snd (ws_onmessage JSON_parse body event_data s) = None \<and>
   this (fst (ws_onmessage JSON_parse body event_data s)) = this s \<and>
   calls (fst (ws_onmessage JSON_parse body event_data s)) =
     calls s @ (case JSON_parse event_data of
                  None \<Rightarrow> []
                | Some data \<Rightarrow> map (\<lambda>h. (h, Some data)) (messageHandlers (this s))) \<and>
   snd (ws_onopen body s) = None \<and>
   calls (fst (ws_onopen body s)) = calls s @ map (\<lambda>h. (h, None)) (connectHandlers (this s)) \<and>
   snd (ws_onclose body s) = None \<and>
   calls (fst (ws_onclose body s)) =
     calls s @ map (\<lambda>h. (h, None)) (disconnectHandlers (this s))"
  using ws_onmessage_effect [of JSON_parse body event_data s
          "fst (ws_onmessage JSON_parse body event_data s)"
          "snd (ws_onmessage JSON_parse body event_data s)"]
        ws_onopen_effect [of body s "fst (ws_onopen body s)" "snd (ws_onopen body s)"]
        ws_onclose_effect [of body s "fst (ws_onclose body s)" "snd (ws_onclose body s)"]
  by simp

text \<open>
  For instance, with the handlers 1 and 2 registered, where 1 throws: both are called with
  the parsed message, the exception is logged, and \<open>onmessage\<close> completes normally.
\<close>

theorem handler_errors_contained_witness:
  "ws_onmessage (\<lambda>t. Some t) (\<lambda>h a w. (w, if h = (1::nat) then Some ''boom'' else None))
     ''{}'' ((initial_state ()) \<lparr>this := new_WebSocketService\<lparr>messageHandlers := [1, 2]\<rparr>\<rparr>) =
   ((initial_state ())
      \<lparr>this := new_WebSocketService\<lparr>messageHandlers := [1, 2]\<rparr>,
       console := [ConsoleError ''Error in message handler:'' (Some ''boom'')],
       calls := [(1, Some ''{}''), (2, Some ''{}'')]\<rparr>, None)"
  using handler_errors_contained
          [of "\<lambda>t. Some t" "\<lambda>h a w. (w, if h = (1::nat) then Some ''boom'' else None)" "''{}''"
              "(initial_state ()) \<lparr>this := new_WebSocketService\<lparr>messageHandlers := [1, 2]\<rparr>\<rparr>"]
  by (simp add: ws_onmessage_def try_catch_def call_handler_def console_error_def
        initial_state_def new_WebSocketService_def)

subsection \<open>Registration and its cleanup function\<close>

lemma set_delete_set_add:
  "x \<notin> set xs \<Longrightarrow> set_delete x (set_add x xs) = xs"
  by (simp add: set_add_def set_delete_def)

lemma set_delete_absent: "x \<notin> set (set_delete x xs)"
  by (simp add: set_delete_def)

lemma distinct_set_add: "distinct xs \<Longrightarrow> distinct (set_add x xs)"
  by (simp add: set_add_def)

lemma distinct_set_delete: "distinct xs \<Longrightarrow> distinct (set_delete x xs)"
  by (simp add: set_delete_def distinct_removeAll)

text \<open>
  C3, as the code has it. Registering a handler that is not yet in the set and then
  calling the returned cleanup function gives back the service as it was, for each of the
  three sets. Whenever the cleanup function is called, on any later state \<open>svc'\<close> of
  the service, it removes the handler from its set, and the next message, open or close
  event does not call the handler.
\<close>

theorem unsubscribe_round_trip:
  "(handler \<notin> set (messageHandlers svc) \<longrightarrow>
      snd (addMessageHandler handler svc) (fst (addMessageHandler handler svc)) = svc) \<and>
   (handler \<notin> set (connectHandlers svc) \<longrightarrow>
      snd (addConnectHandler handler svc) (fst (addConnectHandler handler svc)) = svc) \<and>
   (handler \<notin> set (disconnectHandlers svc) \<longrightarrow>
      snd (addDisconnectHandler handler svc) (fst (addDisconnectHandler handler svc)) = svc) \<and>
   messageHandlers (snd (addMessageHandler handler svc) svc') =
     removeAll handler (messageHandlers svc') \<and>
   connectHandlers (snd (addConnectHandler handler svc) svc') =
     removeAll handler (connectHandlers svc') \<and>
   disconnectHandlers (snd (addDisconnectHandler handler svc) svc') =
     removeAll handler (disconnectHandlers svc') \<and>
   handler \<notin> fst ` set (drop (length (calls s))
      (calls (fst (ws_onmessage JSON_parse body event_data
         (s\<lparr>this := snd (addMessageHandler handler svc) svc'\<rparr>))))) \<and>
   handler \<notin> fst ` set (drop (length (calls s))
      (calls (fst (ws_onopen body (s\<lparr>this := snd (addConnectHandler handler svc) svc'\<rparr>))))) \<and>
   handler \<notin> fst ` set (drop (length (calls s))
      (calls (fst (ws_onclose body (s\<lparr>this := snd (addDisconnectHandler handler svc) svc'\<rparr>)))))"
proof -
  let ?m = "s\<lparr>this := snd (addMessageHandler handler svc) svc'\<rparr>"
  let ?c = "s\<lparr>this := snd (addConnectHandler handler svc) svc'\<rparr>"
  let ?d = "s\<lparr>this := snd (addDisconnectHandler handler svc) svc'\<rparr>"
  have rt: "(handler \<notin> set (messageHandlers svc) \<longrightarrow>
      snd (addMessageHandler handler svc) (fst (addMessageHandler handler svc)) = svc) \<and>
   (handler \<notin> set (connectHandlers svc) \<longrightarrow>
      snd (addConnectHandler handler svc) (fst (addConnectHandler handler svc)) = svc) \<and>
   (handler \<notin> set (disconnectHandlers svc) \<longrightarrow>
      snd (addDisconnectHandler handler svc) (fst (addDisconnectHandler handler svc)) = svc)"
    by (simp add: addMessageHandler_def addConnectHandler_def addDisconnectHandler_def
          set_delete_set_add)
  have rm: "messageHandlers (snd (addMessageHandler handler svc) svc') =
     removeAll handler (messageHandlers svc')"
    "connectHandlers (snd (addConnectHandler handler svc) svc') =
     removeAll handler (connectHandlers svc')"
    "disconnectHandlers (snd (addDisconnectHandler handler svc) svc') =
     removeAll handler (disconnectHandlers svc')"
    by (simp_all add: addMessageHandler_def addConnectHandler_def addDisconnectHandler_def
          set_delete_def)
  have m: "calls (fst (ws_onmessage JSON_parse body event_data ?m)) =
      calls s @ (case JSON_parse event_data of None \<Rightarrow> []
                 | Some data \<Rightarrow> map (\<lambda>h. (h, Some data)) (removeAll handler (messageHandlers svc')))"
    using ws_onmessage_effect [of JSON_parse body event_data ?m
            "fst (ws_onmessage JSON_parse body event_data ?m)"
            "snd (ws_onmessage JSON_parse body event_data ?m)"] rm(1)
    by (simp split: option.splits)
  have c: "calls (fst (ws_onopen body ?c)) =
      calls s @ map (\<lambda>h. (h, None)) (removeAll handler (connectHandlers svc'))"
    using ws_onopen_effect [of body ?c "fst (ws_onopen body ?c)" "snd (ws_onopen body ?c)"] rm(2)
    by simp
  have d: "calls (fst (ws_onclose body ?d)) =
      calls s @ map (\<lambda>h. (h, None)) (removeAll handler (disconnectHandlers svc'))"
    using ws_onclose_effect [of body ?d "fst (ws_onclose body ?d)" "snd (ws_onclose body ?d)"] rm(3)
    by simp
  have m': "handler \<notin> fst ` set (drop (length (calls s))
      (calls (fst (ws_onmessage JSON_parse body event_data ?m))))"
    unfolding m by (auto split: option.splits)
  have c': "handler \<notin> fst ` set (drop (length (calls s)) (calls (fst (ws_onopen body ?c))))"
    unfolding c by auto
  have d': "handler \<notin> fst ` set (drop (length (calls s)) (calls (fst (ws_onclose body ?d))))"
    unfolding d by auto
  from rt rm m' c' d' show ?thesis by blast
qed

text \<open>
  The handler 2 registered on a service that holds the handler 1.
\<close>

theorem unsubscribe_round_trip_witness:
  "(2::nat) \<notin> set (messageHandlers (new_WebSocketService\<lparr>messageHandlers := [1]\<rparr>)) \<and>
   2 \<notin> set (connectHandlers (new_WebSocketService\<lparr>messageHandlers := [1::nat]\<rparr>)) \<and>
   2 \<notin> set (disconnectHandlers (new_WebSocketService\<lparr>messageHandlers := [1::nat]\<rparr>)) \<and>
   snd (addMessageHandler 2 (new_WebSocketService\<lparr>messageHandlers := [1::nat]\<rparr>))
     (fst (addMessageHandler 2 (new_WebSocketService\<lparr>messageHandlers := [1]\<rparr>)))
     = new_WebSocketService\<lparr>messageHandlers := [1]\<rparr> \<and>
   snd (addConnectHandler 2 (new_WebSocketService\<lparr>messageHandlers := [1::nat]\<rparr>))
     (fst (addConnectHandler 2 (new_WebSocketService\<lparr>messageHandlers := [1]\<rparr>)))
     = new_WebSocketService\<lparr>messageHandlers := [1]\<rparr> \<and>
   snd (addDisconnectHandler 2 (new_WebSocketService\<lparr>messageHandlers := [1::nat]\<rparr>))
     (fst (addDisconnectHandler 2 (new_WebSocketService\<lparr>messageHandlers := [1]\<rparr>)))
     = new_WebSocketService\<lparr>messageHandlers := [1]\<rparr>"
  using unsubscribe_round_trip
          [of 2 "new_WebSocketService\<lparr>messageHandlers := [1::nat]\<rparr>"
              "new_WebSocketService" "initial_state () :: (nat, unit, unit) state"
              "\<lambda>t. None" "\<lambda>h a w. (w, None)" "[]"]
  by (simp add: new_WebSocketService_def)

text \<open>
  C3 as stated fails when the handler is already registered: after the handler 1 has been
  registered, registering it a second time and calling the cleanup function of the second
  registration leaves the set empty, not as it was before the second registration.
\<close>

theorem unsubscribe_round_trip_counterexample:
  "messageHandlers (fst (addMessageHandler (1::nat) new_WebSocketService)) = [1] \<and>
   messageHandlers
     (snd (addMessageHandler (1::nat) (fst (addMessageHandler 1 new_WebSocketService)))
        (fst (addMessageHandler 1 (fst (addMessageHandler 1 new_WebSocketService))))) = [] \<and>
   snd (addMessageHandler (1::nat) (fst (addMessageHandler 1 new_WebSocketService)))
     (fst (addMessageHandler 1 (fst (addMessageHandler 1 new_WebSocketService))))
     \<noteq> fst (addMessageHandler 1 new_WebSocketService)"
  by (simp add: addMessageHandler_def new_WebSocketService_def set_add_def set_delete_def)

subsection \<open>Sending\<close>

text \<open>
  C4. Without a socket, or with a socket that is not \<open>OPEN\<close>, \<open>sendMessage\<close>
  completes without an exception and changes nothing but the console, where it logs the
  failure: nothing is sent. With an \<open>OPEN\<close> socket and a message that has a JSON text,
  it completes without an exception and sends exactly that text, once.
\<close>

theorem sendMessage_delivery:
  "(ws (this s) = None \<longrightarrow>
      sendMessage JSON_stringify message s =
        (s\<lparr>console := console s @ [ConsoleError ''WebSocket is not connected'' None]\<rparr>, None)) \<and>
   (ws (this s) = Some sock \<and> readyState sock \<noteq> OPEN \<longrightarrow>
      sendMessage JSON_stringify message s =
        (s\<lparr>console := console s @ [ConsoleError ''WebSocket is not connected'' None]\<rparr>, None)) \<and>
   (ws (this s) = Some sock \<and> readyState sock = OPEN \<and> JSON_stringify message = Inr text \<longrightarrow>
      sendMessage JSON_stringify message s =
        (s\<lparr>this := (this s)\<lparr>ws := Some (sock\<lparr>sent := sent sock @ [text]\<rparr>)\<rparr>\<rparr>, None))"
  by (simp add: sendMessage_def console_error_def)

text \<open>
  No socket, a closed socket and an open socket.
\<close>

theorem sendMessage_delivery_witness:
  "ws (this (initial_state () :: (nat, unit, unit) state)) = None \<and>
   sendMessage (\<lambda>m. Inr m) ''{}'' (initial_state () :: (nat, unit, unit) state) =
     ((initial_state ())\<lparr>console := [ConsoleError ''WebSocket is not connected'' None]\<rparr>, None) \<and>
   sendMessage (\<lambda>m. Inr m) ''{}''
     ((initial_state () :: (nat, unit, unit) state)
        \<lparr>this := new_WebSocketService
           \<lparr>ws := Some \<lparr>url = ''ws://localhost:8081/ws'', readyState = CLOSED, sent = []\<rparr>\<rparr>\<rparr>) =
     ((initial_state ())
        \<lparr>this := new_WebSocketService
           \<lparr>ws := Some \<lparr>url = ''ws://localhost:8081/ws'', readyState = CLOSED, sent = []\<rparr>\<rparr>,
         console := [ConsoleError ''WebSocket is not connected'' None]\<rparr>, None) \<and>
   sendMessage (\<lambda>m. Inr m) ''{}''
     ((initial_state () :: (nat, unit, unit) state)
        \<lparr>this := new_WebSocketService
           \<lparr>ws := Some \<lparr>url = ''ws://localhost:8081/ws'', readyState = OPEN, sent = []\<rparr>\<rparr>\<rparr>) =
     ((initial_state ())
        \<lparr>this := new_WebSocketService
           \<lparr>ws := Some \<lparr>url = ''ws://localhost:8081/ws'', readyState = OPEN, sent = [''{}'']\<rparr>\<rparr>\<rparr>,
      None)"
  using sendMessage_delivery
          [of "initial_state () :: (nat, unit, unit) state" "\<lambda>m. Inr m" "''{}''"
              "\<lparr>url = ''ws://localhost:8081/ws'', readyState = CLOSED, sent = []\<rparr>" "''{}''"]
        sendMessage_delivery
          [of "(initial_state () :: (nat, unit, unit) state)
                 \<lparr>this := new_WebSocketService
                    \<lparr>ws := Some \<lparr>url = ''ws://localhost:8081/ws'', readyState = CLOSED, sent = []\<rparr>\<rparr>\<rparr>"
              "\<lambda>m. Inr m" "''{}''"
              "\<lparr>url = ''ws://localhost:8081/ws'', readyState = CLOSED, sent = []\<rparr>" "''{}''"]
        sendMessage_delivery
          [of "(initial_state () :: (nat, unit, unit) state)
                 \<lparr>this := new_WebSocketService
                    \<lparr>ws := Some \<lparr>url = ''ws://localhost:8081/ws'', readyState = OPEN, sent = []\<rparr>\<rparr>\<rparr>"
              "\<lambda>m. Inr m" "''{}''"
              "\<lparr>url = ''ws://localhost:8081/ws'', readyState = OPEN, sent = []\<rparr>" "''{}''"]
  by (simp add: initial_state_def new_WebSocketService_def)

subsection \<open>The singleton\<close>

text \<open>
  C9. After a call of \<open>getInstance\<close> the static field holds the reference that the
  call returned. The first call (field undefined) constructs the object at a new address;
  a call with the field set changes nothing. Every later call, in any state \<open>g'\<close>
  that has the same static field (whatever has happened to the object in between), returns
  that same reference and leaves the state as it is.
\<close>

theorem getInstance_idempotent:
  "WebSocketService_instance (snd (getInstance g)) = Some (fst (getInstance g)) \<and>
   (WebSocketService_instance g = None \<longrightarrow>
      fst (getInstance g) = length (heap g) \<and>
      heap (snd (getInstance g)) = heap g @ [new_WebSocketService]) \<and>
   (WebSocketService_instance g \<noteq> None \<longrightarrow> snd (getInstance g) = g) \<and>
   (WebSocketService_instance g' = WebSocketService_instance (snd (getInstance g)) \<longrightarrow>
      getInstance g' = (fst (getInstance g), g'))"
  by (auto simp: getInstance_def Let_def split: option.splits)

text \<open>
  A first call, a second call, and a call after a handler has been registered on the
  object: the same reference 0 each time.
\<close>

theorem getInstance_idempotent_witness:
  "WebSocketService_instance (\<lparr>WebSocketService_instance = None, heap = []\<rparr> :: nat statics) = None \<and>
   WebSocketService_instance (\<lparr>WebSocketService_instance = Some 0, heap = [new_WebSocketService]\<rparr> :: nat statics) \<noteq> None \<and>
   getInstance (\<lparr>WebSocketService_instance = None, heap = []\<rparr> :: nat statics) =
     (0, \<lparr>WebSocketService_instance = Some 0, heap = [new_WebSocketService]\<rparr>) \<and>
   getInstance (\<lparr>WebSocketService_instance = Some 0, heap = [new_WebSocketService]\<rparr> :: nat statics) =
     (0, \<lparr>WebSocketService_instance = Some 0, heap = [new_WebSocketService]\<rparr>) \<and>
   getInstance (\<lparr>WebSocketService_instance = Some 0,
                  heap = [fst (addMessageHandler (7::nat) new_WebSocketService)]\<rparr>) =
     (0, \<lparr>WebSocketService_instance = Some 0,
           heap = [fst (addMessageHandler 7 new_WebSocketService)]\<rparr>)"
  using getInstance_idempotent
          [of "\<lparr>WebSocketService_instance = None, heap = []\<rparr> :: nat statics"
              "\<lparr>WebSocketService_instance = Some 0,
                 heap = [fst (addMessageHandler (7::nat) new_WebSocketService)]\<rparr>"]
        getInstance_idempotent
          [of "\<lparr>WebSocketService_instance = Some 0, heap = [new_WebSocketService]\<rparr> :: nat statics"
              "\<lparr>WebSocketService_instance = Some 0, heap = [new_WebSocketService]\<rparr>"]
  by (simp add: getInstance_def)

section \<open>Properties of the job list\<close>

lemma request_success:
  "fst (request outcome con) = Inr v \<longleftrightarrow>
   (\<exists>response. outcome = Resolved response \<and> ok response \<and> json response = Inr v)"
  by (auto simp: request_def split: fetched.splits sum.splits if_splits)

text \<open>
  C5. When the API call succeeds (\<open>request\<close> returns a value), the job list after
  \<open>deleteJob\<close> is the prior list without the jobs whose id is \<open>jobId\<close>, the other
  jobs unchanged and in their order; when the API call fails, the job list is unchanged.
\<close>

theorem deleteJob_removes_or_keeps:
  "(fst (request outcome (app_console st)) = Inr v \<longrightarrow>
      jobs (deleteJob outcome jobId st) = filter (\<lambda>job. job_id job \<noteq> jobId) (jobs st)) \<and>
   (fst (request outcome (app_console st)) = Inl error \<longrightarrow>
      jobs (deleteJob outcome jobId st) = jobs st)"
  by (auto simp: deleteJob_def split: prod.splits sum.splits)

text \<open>
  A successful delete of job 1 from two jobs, and a delete that fails with status 404.
\<close>

theorem deleteJob_removes_or_keeps_witness:
  "fst (request (Resolved \<lparr>ok = True, status = 200, json = Inr ()\<rparr>) []) = Inr () \<and>
   jobs (deleteJob (Resolved \<lparr>ok = True, status = 200, json = Inr ()\<rparr>) 1
     \<lparr>jobs = [\<lparr>job_id = 1, name = ''a'', monitoring_focus = [], query = [], urls = [],
                schedule_cron = [], is_active = True, last_run = JNull, next_run = JNull,
                created_at = JNull\<rparr>,
              \<lparr>job_id = 2, name = ''b'', monitoring_focus = [], query = [], urls = [],
                schedule_cron = [], is_active = True, last_run = JNull, next_run = JNull,
                created_at = JNull\<rparr>],
       app_console = []\<rparr>) =
     [\<lparr>job_id = 2, name = ''b'', monitoring_focus = [], query = [], urls = [],
       schedule_cron = [], is_active = True, last_run = JNull, next_run = JNull,
       created_at = JNull\<rparr>] \<and>
   fst (request (Resolved \<lparr>ok = False, status = 404, json = Inr ()\<rparr>) []) =
     Inl (''HTTP error! status: '' @ string_of_nat 404) \<and>
   jobs (deleteJob (Resolved \<lparr>ok = False, status = 404, json = Inr ()\<rparr>) 1
     \<lparr>jobs = [\<lparr>job_id = 1, name = ''a'', monitoring_focus = [], query = [], urls = [],
                schedule_cron = [], is_active = True, last_run = JNull, next_run = JNull,
                created_at = JNull\<rparr>],
       app_console = []\<rparr>) =
     [\<lparr>job_id = 1, name = ''a'', monitoring_focus = [], query = [], urls = [],
       schedule_cron = [], is_active = True, last_run = JNull, next_run = JNull,
       created_at = JNull\<rparr>]"
  using deleteJob_removes_or_keeps
          [of "Resolved \<lparr>ok = True, status = 200, json = Inr ()\<rparr>"
              "\<lparr>jobs = [\<lparr>job_id = 1, name = ''a'', monitoring_focus = [], query = [], urls = [],
                schedule_cron = [], is_active = True, last_run = JNull, next_run = JNull,
                created_at = JNull\<rparr>,
              \<lparr>job_id = 2, name = ''b'', monitoring_focus = [], query = [], urls = [],
                schedule_cron = [], is_active = True, last_run = JNull, next_run = JNull,
                created_at = JNull\<rparr>],
                app_console = []\<rparr>" "()" 1 "[]"]
        deleteJob_removes_or_keeps
          [of "Resolved \<lparr>ok = False, status = 404, json = Inr ()\<rparr>"
              "\<lparr>jobs = [\<lparr>job_id = 1, name = ''a'', monitoring_focus = [], query = [], urls = [],
                schedule_cron = [], is_active = True, last_run = JNull, next_run = JNull,
                created_at = JNull\<rparr>],
                app_console = []\<rparr>" "()" 1
              "''HTTP error! status: '' @ string_of_nat 404"]
  by (simp add: request_def)

text \<open>
  C8. After a successful \<open>toggleJob\<close> the list has the same length, every job with
  another id is unchanged, and a job with the id \<open>jobId\<close> is the prior job with
  \<open>is_active\<close> set to the value of the job that the API returned: every other field,
  and every further field of an extended job, is as before.
\<close>

theorem toggleJob_frame:
  assumes "fst (request outcome (app_console st)) = Inr updatedJob"
  shows "length (jobs (toggleJob outcome jobId st)) = length (jobs st) \<and>
         (\<forall>i < length (jobs st).
            (job_id (jobs st ! i) \<noteq> jobId \<longrightarrow>
               jobs (toggleJob outcome jobId st) ! i = jobs st ! i) \<and>
            (job_id (jobs st ! i) = jobId \<longrightarrow>
               jobs (toggleJob outcome jobId st) ! i =
                 (jobs st ! i)\<lparr>is_active := is_active updatedJob\<rparr> \<and>
               is_active (jobs (toggleJob outcome jobId st) ! i) = is_active updatedJob \<and>
               job_id (jobs (toggleJob outcome jobId st) ! i) = job_id (jobs st ! i) \<and>
               name (jobs (toggleJob outcome jobId st) ! i) = name (jobs st ! i) \<and>
               monitoring_focus (jobs (toggleJob outcome jobId st) ! i) =
                 monitoring_focus (jobs st ! i) \<and>
               query (jobs (toggleJob outcome jobId st) ! i) = query (jobs st ! i) \<and>
               urls (jobs (toggleJob outcome jobId st) ! i) = urls (jobs st ! i) \<and>
               schedule_cron (jobs (toggleJob outcome jobId st) ! i) =
                 schedule_cron (jobs st ! i) \<and>
               last_run (jobs (toggleJob outcome jobId st) ! i) = last_run (jobs st ! i) \<and>
               next_run (jobs (toggleJob outcome jobId st) ! i) = next_run (jobs st ! i) \<and>
               created_at (jobs (toggleJob outcome jobId st) ! i) = created_at (jobs st ! i) \<and>
               job.more (jobs (toggleJob outcome jobId st) ! i) = job.more (jobs st ! i)))"
proof -
  obtain con where r: "request outcome (app_console st) = (Inr updatedJob, con)"
    using assms by (cases "request outcome (app_console st)") simp
  have j: "jobs (toggleJob outcome jobId st) =
      map (\<lambda>job. if job_id job = jobId then job\<lparr>is_active := is_active updatedJob\<rparr> else job)
        (jobs st)"
    by (simp add: toggleJob_def r)
  show ?thesis unfolding j by simp
qed

text \<open>
  Toggling job 2 of two active jobs, the API returning it inactive.
\<close>

theorem toggleJob_frame_witness:
  "fst (request (Resolved \<lparr>ok = True, status = 200, json = Inr
          \<lparr>job_id = 2, name = ''b'', monitoring_focus = [], query = [], urls = [],
            schedule_cron = [], is_active = False, last_run = JNull, next_run = JNull,
            created_at = JNull\<rparr>\<rparr>) []) =
     Inr \<lparr>job_id = 2, name = ''b'', monitoring_focus = [], query = [], urls = [],
           schedule_cron = [], is_active = False, last_run = JNull, next_run = JNull,
           created_at = JNull\<rparr> \<and>
   (1::nat) < length (jobs
     \<lparr>jobs = [\<lparr>job_id = 1, name = ''a'', monitoring_focus = [], query = [], urls = [],
                schedule_cron = [], is_active = True, last_run = JNull, next_run = JNull,
                created_at = JNull\<rparr>,
              \<lparr>job_id = 2, name = ''b'', monitoring_focus = [], query = [], urls = [],
                schedule_cron = [], is_active = True, last_run = JNull, next_run = JNull,
                created_at = JNull\<rparr>],
       app_console = []\<rparr>) \<and>
   jobs (toggleJob (Resolved \<lparr>ok = True, status = 200, json = Inr
          \<lparr>job_id = 2, name = ''b'', monitoring_focus = [], query = [], urls = [],
            schedule_cron = [], is_active = False, last_run = JNull, next_run = JNull,
            created_at = JNull\<rparr>\<rparr>) 2
     \<lparr>jobs = [\<lparr>job_id = 1, name = ''a'', monitoring_focus = [], query = [], urls = [],
                schedule_cron = [], is_active = True, last_run = JNull, next_run = JNull,
                created_at = JNull\<rparr>,
              \<lparr>job_id = 2, name = ''b'', monitoring_focus = [], query = [], urls = [],
                schedule_cron = [], is_active = True, last_run = JNull, next_run = JNull,
                created_at = JNull\<rparr>],
       app_console = []\<rparr>) =
     [\<lparr>job_id = 1, name = ''a'', monitoring_focus = [], query = [], urls = [],
       schedule_cron = [], is_active = True, last_run = JNull, next_run = JNull,
       created_at = JNull\<rparr>,
      \<lparr>job_id = 2, name = ''b'', monitoring_focus = [], query = [], urls = [],
       schedule_cron = [], is_active = False, last_run = JNull, next_run = JNull,
       created_at = JNull\<rparr>]"
  using toggleJob_frame
          [of "Resolved \<lparr>ok = True, status = 200, json = Inr
                 \<lparr>job_id = 2, name = ''b'', monitoring_focus = [], query = [], urls = [],
                   schedule_cron = [], is_active = False, last_run = JNull, next_run = JNull,
                   created_at = JNull\<rparr>\<rparr>"
              "\<lparr>jobs = [\<lparr>job_id = 1, name = ''a'', monitoring_focus = [], query = [], urls = [],
                schedule_cron = [], is_active = True, last_run = JNull, next_run = JNull,
                created_at = JNull\<rparr>,
              \<lparr>job_id = 2, name = ''b'', monitoring_focus = [], query = [], urls = [],
                schedule_cron = [], is_active = True, last_run = JNull, next_run = JNull,
                created_at = JNull\<rparr>],
                app_console = []\<rparr>"
              "\<lparr>job_id = 2, name = ''b'', monitoring_focus = [], query = [], urls = [],
                 schedule_cron = [], is_active = False, last_run = JNull, next_run = JNull,
                 created_at = JNull\<rparr>" 2]
  by (simp add: request_def toggleJob_def)

text \<open>
  C10. \<open>formatDate\<close> returns \<open>Never\<close> for null, for undefined and for the empty
  string; for a non-empty string it returns what the locale formatting of that date gives.
\<close>

theorem formatDate_never_or_formatted:
  "formatDate toLocaleString JNull = ''Never'' \<and>
   formatDate toLocaleString JUndefined = ''Never'' \<and>
   formatDate toLocaleString (JStr []) = ''Never'' \<and>
   (dateString \<noteq> [] \<longrightarrow>
      formatDate toLocaleString (JStr dateString) = toLocaleString (JStr dateString))"
  by (simp add: formatDate_def)

text \<open>
  A date string, with a formatter that renders it as a fixed text.
\<close>

theorem formatDate_never_or_formatted_witness:
  "''2025-03-01T09:30:00'' \<noteq> [] \<and>
   formatDate (\<lambda>d. ''Mar 1, 09:30 AM'') (JStr ''2025-03-01T09:30:00'') = ''Mar 1, 09:30 AM''"
  using formatDate_never_or_formatted [of "\<lambda>d. ''Mar 1, 09:30 AM''" "''2025-03-01T09:30:00''"]
  by simp

section \<open>Properties of the monitoring core\<close>

text \<open>
  C6. When the fingerprints of the two snapshots are equal, the classifier returns
  \<open>Unchanged\<close> after the fingerprint check alone; and a cycle whose fetched content
  has the fingerprint of the baseline ends with verdict \<open>Unchanged\<close>, the store as it
  was (no commit) and no alert.
\<close>

theorem fingerprint_equal_unchanged:
  "(fingerprint old = fingerprint new \<longrightarrow>
      classify distance deeper th old new = (Unchanged, [FingerprintCheck])) \<and>
   (getBaseline st sourceId = Some old \<and> fingerprint_of text = fingerprint old \<longrightarrow>
      run_cycle fingerprint_of distance deeper th st sourceId (Fetched text fetchedAt) =
        (st, Unchanged, []))"
  by (simp add: classify_def run_cycle_def)

text \<open>
  Two contents that differ in white space and have the same fingerprint.
\<close>

theorem fingerprint_equal_unchanged_witness:
  "fingerprint \<lparr>capturedAt = 10, content = ''News  today'', fingerprint = 42\<rparr> =
   fingerprint \<lparr>capturedAt = 70, content = ''News today'', fingerprint = 42\<rparr> \<and>
   classify (\<lambda>a b. 1) None \<lparr>trivialThreshold = 1 / 10, significantThreshold = 1 / 2\<rparr>
     \<lparr>capturedAt = 10, content = ''News  today'', fingerprint = 42\<rparr>
     \<lparr>capturedAt = 70, content = ''News today'', fingerprint = 42\<rparr> =
     (Unchanged, [FingerprintCheck]) \<and>
   getBaseline \<lparr>baselines = [(1::nat) \<mapsto> \<lparr>capturedAt = 10, content = ''News  today'', fingerprint = 42\<rparr>],
                history = (\<lambda>i. []), retention = 3\<rparr> 1 =
     Some \<lparr>capturedAt = 10, content = ''News  today'', fingerprint = 42\<rparr> \<and>
   fst (snd (run_cycle (\<lambda>t. 42) (\<lambda>a b. 1) None
     \<lparr>trivialThreshold = 1 / 10, significantThreshold = 1 / 2\<rparr>
     \<lparr>baselines = [(1::nat) \<mapsto> \<lparr>capturedAt = 10, content = ''News  today'', fingerprint = 42\<rparr>],
       history = (\<lambda>i. []), retention = 3\<rparr> 1 (Fetched ''News today'' 70))) = Unchanged"
  using fingerprint_equal_unchanged
          [of "\<lparr>capturedAt = 10, content = ''News  today'', fingerprint = 42\<rparr>"
              "\<lparr>capturedAt = 70, content = ''News today'', fingerprint = 42\<rparr>"
              "\<lambda>a b. 1" None "\<lparr>trivialThreshold = 1 / 10, significantThreshold = 1 / 2\<rparr>"
              "\<lparr>baselines = [(1::nat) \<mapsto> \<lparr>capturedAt = 10, content = ''News  today'', fingerprint = 42\<rparr>],
                 history = (\<lambda>i. []), retention = 3\<rparr>" 1 "\<lambda>t. 42" "''News today''" 70]
  by (simp add: getBaseline_def)

text \<open>
  C7. For a source without a baseline, a cycle with a successful fetch commits the fetched
  snapshot, which is then the baseline of the source; the verdict is \<open>Unchanged\<close>, so
  not \<open>Significant\<close>, and no alert is dispatched.
\<close>

theorem first_ingest_accepted_as_baseline:
  assumes "getBaseline st sourceId = None"
  shows "run_cycle fingerprint_of distance deeper th st sourceId (Fetched text fetchedAt) =
           (commit st sourceId
              \<lparr>capturedAt = fetchedAt, content = text, fingerprint = fingerprint_of text\<rparr>,
            Unchanged, []) \<and>
         getBaseline
           (fst (run_cycle fingerprint_of distance deeper th st sourceId (Fetched text fetchedAt)))
           sourceId =
           Some \<lparr>capturedAt = fetchedAt, content = text, fingerprint = fingerprint_of text\<rparr> \<and>
         fst (snd (run_cycle fingerprint_of distance deeper th st sourceId
                     (Fetched text fetchedAt))) \<noteq> Significant \<and>
         snd (snd (run_cycle fingerprint_of distance deeper th st sourceId
                     (Fetched text fetchedAt))) = []"
  using assms by (simp add: run_cycle_def getBaseline_def commit_def Let_def)

text \<open>
  The first fetch of source 1 in an empty store.
\<close>

theorem first_ingest_accepted_as_baseline_witness:
  "getBaseline \<lparr>baselines = (Map.empty :: nat \<rightharpoonup> snapshot), history = (\<lambda>i. []), retention = 3\<rparr> 1
     = None \<and>
   getBaseline (fst (run_cycle (\<lambda>t. 42) (\<lambda>a b. 1) None
     \<lparr>trivialThreshold = 1 / 10, significantThreshold = 1 / 2\<rparr>
     \<lparr>baselines = (Map.empty :: nat \<rightharpoonup> snapshot), history = (\<lambda>i. []), retention = 3\<rparr>
     1 (Fetched ''News today'' 70))) 1 =
     Some \<lparr>capturedAt = 70, content = ''News today'', fingerprint = 42\<rparr> \<and>
   fst (snd (run_cycle (\<lambda>t. 42) (\<lambda>a b. 1) None
     \<lparr>trivialThreshold = 1 / 10, significantThreshold = 1 / 2\<rparr>
     \<lparr>baselines = (Map.empty :: nat \<rightharpoonup> snapshot), history = (\<lambda>i. []), retention = 3\<rparr>
     1 (Fetched ''News today'' 70))) = Unchanged"
  using first_ingest_accepted_as_baseline
          [of "\<lparr>baselines = (Map.empty :: nat \<rightharpoonup> snapshot), history = (\<lambda>i. []), retention = 3\<rparr>"
              1 "\<lambda>t. 42" "\<lambda>a b. 1" None
              "\<lparr>trivialThreshold = 1 / 10, significantThreshold = 1 / 2\<rparr>" "''News today''" 70]
  by (simp add: getBaseline_def commit_def)

end
